theory Spec2Isabelle
  imports Main "HOL-Library.Sublist"
begin

section \<open>Strings\<close>

text \<open>
  Python strings are modelled as \<open>string\<close>. The helpers below are the string operations
  the tools use: the separator join of \<^verbatim>\<open>', '.join(xs)\<close>, \<^verbatim>\<open>str.lower()\<close> on the ASCII
  letters, the decimal rendering of a non-negative integer inside an f-string, and the
  substring test \<^verbatim>\<open>needle in s\<close>, which is \<^const>\<open>sublist\<close>.
\<close>

definition apostrophe :: char where
  "apostrophe = CHR 0x27"

fun join :: "string \<Rightarrow> string list \<Rightarrow> string" where
  "join sep [] = []"
| "join sep [x] = x"
| "join sep (x # y # ys) = x @ sep @ join sep (y # ys)"

definition lower_char :: "char \<Rightarrow> char" where
  "lower_char c =
     (let n = (of_char c :: nat) in if 65 \<le> n \<and> n \<le> 90 then char_of (n + 32) else c)"

definition lower :: "string \<Rightarrow> string" where
  "lower s = map lower_char s"

definition digit_char :: "nat \<Rightarrow> char" where
  "digit_char d = char_of (48 + d)"

fun str_of_nat :: "nat \<Rightarrow> string" where
  "str_of_nat n = (if n < 10 then [digit_char n] else str_of_nat (n div 10) @ [digit_char (n mod 10)])"

declare str_of_nat.simps [simp del]

section \<open>The rules engine\<close>

text \<open>
  The board is a \<^verbatim>\<open>chess.Board\<close> of the python-chess library, which is not part of the
  repository. The tools only call its methods, so the library is a parameter of the model:
  a record of the methods used in \<^verbatim>\<open>src/utils/tools.py\<close> and \<^verbatim>\<open>src/app.py\<close>, over a
  type \<open>'b\<close> of positions and a type \<open>'m\<close> of moves. A method that can raise
  \<^verbatim>\<open>ValueError\<close> returns \<open>Inl\<close> of the exception's text. \<^verbatim>\<open>board.turn\<close> is a boolean,
  \<^verbatim>\<open>chess.WHITE\<close> being \<^verbatim>\<open>True\<close>. \<^verbatim>\<open>board.legal_moves\<close> is read as the list of legal
  moves in the order the library iterates it; \<^verbatim>\<open>move in board.legal_moves\<close> is membership
  in that list. The queries are functions of the position: they do not change it.
\<close>

record ('b, 'm) engine =
  board_fen :: "'b \<Rightarrow> string"
  board_set_fen :: "'b \<Rightarrow> string \<Rightarrow> string + 'b"
  board_reset :: "'b \<Rightarrow> 'b"
  board_turn :: "'b \<Rightarrow> bool"
  move_from_uci :: "string \<Rightarrow> string + 'm"
  move_uci :: "'m \<Rightarrow> string"
  board_legal_moves :: "'b \<Rightarrow> 'm list"
  board_push :: "'b \<Rightarrow> 'm \<Rightarrow> 'b"
  board_parse_san :: "'b \<Rightarrow> string \<Rightarrow> string + 'm"
  board_is_check :: "'b \<Rightarrow> bool"
  board_is_checkmate :: "'b \<Rightarrow> bool"
  board_is_stalemate :: "'b \<Rightarrow> bool"
  board_is_insufficient_material :: "'b \<Rightarrow> bool"
  board_can_claim_threefold_repetition :: "'b \<Rightarrow> bool"
  board_can_claim_fifty_moves :: "'b \<Rightarrow> bool"
  board_is_game_over :: "'b \<Rightarrow> bool"
  board_result_claim_draw :: "'b \<Rightarrow> string"

section \<open>The tools of \<^verbatim>\<open>create_base_tools\<close>\<close>

text \<open>
  Every tool closes over the one shared board and mutates it in place; in the model a tool
  takes the position and returns its answer together with the position it leaves behind.
  The \<^verbatim>\<open>print\<close> calls write a log only and are left out.
\<close>

definition side_name :: "bool \<Rightarrow> string" where
  "side_name t = (if t then ''white'' else ''black'')"

definition get_fen :: "('b, 'm) engine \<Rightarrow> 'b \<Rightarrow> string \<times> 'b" where
  "get_fen E board = (board_fen E board, board)"

definition set_fen :: "('b, 'm) engine \<Rightarrow> string \<Rightarrow> 'b \<Rightarrow> string \<times> 'b" where
  "set_fen E fen board =
     (case board_set_fen E board fen of
        Inr board' \<Rightarrow> (board_fen E board', board')
      | Inl e \<Rightarrow> (e, board))"

text \<open>
  \<^verbatim>\<open>make_move\<close> has five return statements. The model returns which one was taken, with the
  values that go into its text; \<open>render_reply\<close> builds the string the tool returns.
\<close>

datatype reply =
  NotYourTurn string
  | MoveApplied string string
  | IllegalMove string "string list"
  | InvalidUciFormat string
  | OtherError string

definition render_reply :: "reply \<Rightarrow> string" where
  "render_reply r =
     (case r of
        NotYourTurn current \<Rightarrow>
          ''Not your turn: it'' @ [apostrophe] @ ''s '' @ current @ '' to move. Wait for opponent.''
      | MoveApplied new_fen status \<Rightarrow> new_fen @ '' | status='' @ status
      | IllegalMove move legal_moves \<Rightarrow>
          ''Illegal move '' @ [apostrophe] @ move @ [apostrophe]
            @ ''. Use UCI format like these legal moves: '' @ join '', '' legal_moves
      | InvalidUciFormat move \<Rightarrow>
          ''Invalid UCI format '' @ [apostrophe] @ move @ [apostrophe]
            @ ''. Use convert_move_to_uci tool if you have algebraic notation, or get_legal_moves to see valid UCI moves.''
      | OtherError e \<Rightarrow> e)"

text \<open>The \<^verbatim>\<open>if\<close>/\<^verbatim>\<open>elif\<close> chain of lines 66 to 78, on the position after the push.\<close>

definition move_status :: "('b, 'm) engine \<Rightarrow> 'b \<Rightarrow> string" where
  "move_status E board =
     (if board_is_checkmate E board then
        ''checkmate:'' @ (if board_turn E board = False then ''white'' else ''black'')
      else if board_is_stalemate E board then ''stalemate''
      else if board_is_insufficient_material E board then ''draw:insufficient_material''
      else if board_can_claim_threefold_repetition E board then
        ''draw:threefold_repetition_claim_available''
      else if board_can_claim_fifty_moves E board then ''draw:fifty_move_rule_claim_available''
      else ''ongoing'')"

definition make_move :: "('b, 'm) engine \<Rightarrow> string option \<Rightarrow> string \<Rightarrow> 'b \<Rightarrow> reply \<times> 'b" where
  "make_move E allowed_side move board =
     (let current = side_name (board_turn E board) in
      if allowed_side \<noteq> None \<and> Some current \<noteq> allowed_side then (NotYourTurn current, board)
      else
        (case move_from_uci E move of
           Inl e \<Rightarrow>
             if sublist ''expected uci string'' (lower e) \<or> sublist ''invalid uci'' (lower e)
             then (InvalidUciFormat move, board)
             else (OtherError e, board)
         | Inr chess_move \<Rightarrow>
             if chess_move \<in> set (board_legal_moves E board) then
               (let board' = board_push E board chess_move;
                    new_fen = board_fen E board'
                in (MoveApplied new_fen (move_status E board'), board'))
             else
               (IllegalMove move (map (move_uci E) (take 10 (board_legal_moves E board))),
                board)))"

definition get_legal_moves :: "('b, 'm) engine \<Rightarrow> 'b \<Rightarrow> string \<times> 'b" where
  "get_legal_moves E board =
     (let legal_moves = map (move_uci E) (board_legal_moves E board);
          n = length (board_legal_moves E board);
          legal_moves_str = join '', '' (take 20 legal_moves)
      in (''Legal moves (UCI format): ''
            @ (if n > 20 then legal_moves_str @ '', ... and '' @ str_of_nat (n - 20) @ '' more''
               else legal_moves_str),
          board))"

definition convert_move_to_uci :: "('b, 'm) engine \<Rightarrow> string \<Rightarrow> 'b \<Rightarrow> string \<times> 'b" where
  "convert_move_to_uci E algebraic_move board =
     (case board_parse_san E board algebraic_move of
        Inr move \<Rightarrow> (''UCI format: '' @ move_uci E move, board)
      | Inl e \<Rightarrow>
          (''Could not convert '' @ [apostrophe] @ algebraic_move @ [apostrophe]
             @ '' to UCI format. Error: '' @ e,
           board))"

definition get_status :: "('b, 'm) engine \<Rightarrow> 'b \<Rightarrow> string \<times> 'b" where
  "get_status E board =
     (let status =
            [''turn='' @ side_name (board_turn E board)]
            @ (if board_is_checkmate E board then [''checkmate''] else [])
            @ (if board_is_stalemate E board then [''stalemate''] else [])
            @ (if board_is_check E board then [''check''] else [])
            @ [''result='' @ board_result_claim_draw E board]
      in (''FEN='' @ board_fen E board @ '' | '' @ join '', '' status, board))"

text \<open>
  A tool as the agent sees it: a name and a call from one string argument (unused by the
  tools that take none) to a string. \<^verbatim>\<open>create_base_tools\<close> returns the six tools in this
  order, \<^verbatim>\<open>make_move\<close> holding the side restriction it was built with.
\<close>

record 'b tool =
  tool_name :: string
  tool_call :: "string \<Rightarrow> 'b \<Rightarrow> string \<times> 'b"

definition make_move_tool :: "('b, 'm) engine \<Rightarrow> string option \<Rightarrow> string \<Rightarrow> 'b \<Rightarrow> string \<times> 'b" where
  "make_move_tool E allowed_side move board =
     (render_reply (fst (make_move E allowed_side move board)),
      snd (make_move E allowed_side move board))"

definition create_base_tools :: "('b, 'm) engine \<Rightarrow> string option \<Rightarrow> 'b tool list" where
  "create_base_tools E allowed_side =
     [\<lparr>tool_name = ''get_fen'', tool_call = (\<lambda>_. get_fen E)\<rparr>,
      \<lparr>tool_name = ''set_fen'', tool_call = set_fen E\<rparr>,
      \<lparr>tool_name = ''make_move'', tool_call = make_move_tool E allowed_side\<rparr>,
      \<lparr>tool_name = ''get_legal_moves'', tool_call = (\<lambda>_. get_legal_moves E)\<rparr>,
      \<lparr>tool_name = ''convert_move_to_uci'', tool_call = convert_move_to_uci E\<rparr>,
      \<lparr>tool_name = ''get_status'', tool_call = (\<lambda>_. get_status E)\<rparr>]"

section \<open>A small engine for running the tools\<close>

text \<open>
  The theorems below hold for every engine. To run the tools on concrete inputs, this is
  an excerpt of the rules of chess on four positions: the initial position, the position
  after \<open>e2e4\<close>, and the two positions around Fool's mate (after 1. f3 e5 2. g4, and after
  2... Qh4 mate). A move is its UCI string. A push that leaves the excerpt ends in
  \<open>Beyond\<close>, about which the excerpt says nothing.
\<close>

datatype demo_board = Start | AfterE4 | FoolsPre | FoolsMate | Beyond

definition demo_fen :: "demo_board \<Rightarrow> string" where
  "demo_fen b =
     (case b of
        Start \<Rightarrow> ''rnbqkbnr/pppppppp/8/8/8/8/PPPPPPPP/RNBQKBNR w KQkq - 0 1''
      | AfterE4 \<Rightarrow> ''rnbqkbnr/pppppppp/8/8/4P3/8/PPPP1PPP/RNBQKBNR b KQkq - 0 1''
      | FoolsPre \<Rightarrow> ''rnbqkbnr/pppp1ppp/8/4p3/6P1/5P2/PPPPP2P/RNBQKBNR b KQkq - 0 2''
      | FoolsMate \<Rightarrow> ''rnb1kbnr/pppp1ppp/8/4p3/6Pq/5P2/PPPPP2P/RNBQKBNR w KQkq - 1 3''
      | Beyond \<Rightarrow> ''(outside the excerpt)'')"

definition demo_set_fen :: "demo_board \<Rightarrow> string \<Rightarrow> string + demo_board" where
  "demo_set_fen b fen =
     (if fen = demo_fen Start then Inr Start
      else if fen = demo_fen AfterE4 then Inr AfterE4
      else if fen = demo_fen FoolsPre then Inr FoolsPre
      else if fen = demo_fen FoolsMate then Inr FoolsMate
      else Inl (''invalid fen: '' @ fen))"

definition demo_turn :: "demo_board \<Rightarrow> bool" where
  "demo_turn b = (case b of Start \<Rightarrow> True | AfterE4 \<Rightarrow> False | FoolsPre \<Rightarrow> False
                   | FoolsMate \<Rightarrow> True | Beyond \<Rightarrow> True)"

definition demo_square :: "char \<Rightarrow> char \<Rightarrow> bool" where
  "demo_square f r = (f \<in> set ''abcdefgh'' \<and> r \<in> set ''12345678'')"

definition demo_from_uci :: "string \<Rightarrow> string + string" where
  "demo_from_uci uci =
     (case uci of
        [a, b, c, d] \<Rightarrow>
          if demo_square a b \<and> demo_square c d \<and> [a, b] \<noteq> [c, d] then Inr uci
          else Inl (''invalid uci: '' @ uci)
      | [a, b, c, d, p] \<Rightarrow>
          if demo_square a b \<and> demo_square c d \<and> [a, b] \<noteq> [c, d] \<and> p \<in> set ''pnbrqk''
          then Inr uci
          else Inl (''invalid uci: '' @ uci)
      | _ \<Rightarrow> Inl (''expected uci string to be of length 4 or 5: '' @ uci))"

definition demo_legal_moves :: "demo_board \<Rightarrow> string list" where
  "demo_legal_moves b =
     (case b of
        Start \<Rightarrow>
          [''g1h3'', ''g1f3'', ''b1c3'', ''b1a3'', ''h2h3'', ''g2g3'', ''f2f3'', ''e2e3'',
           ''d2d3'', ''c2c3'', ''b2b3'', ''a2a3'', ''h2h4'', ''g2g4'', ''f2f4'', ''e2e4'',
           ''d2d4'', ''c2c4'', ''b2b4'', ''a2a4'']
      | AfterE4 \<Rightarrow>
          [''g8h6'', ''g8f6'', ''b8c6'', ''b8a6'', ''h7h6'', ''g7g6'', ''f7f6'', ''e7e6'',
           ''d7d6'', ''c7c6'', ''b7b6'', ''a7a6'', ''h7h5'', ''g7g5'', ''f7f5'', ''e7e5'',
           ''d7d5'', ''c7c5'', ''b7b5'', ''a7a5'']
      | FoolsPre \<Rightarrow>
          [''g8e7'', ''g8h6'', ''g8f6'', ''f8e7'', ''f8d6'', ''f8c5'', ''f8b4'', ''f8a3'',
           ''e8e7'', ''d8e7'', ''d8f6'', ''d8g5'', ''d8h4'', ''b8c6'', ''b8a6'', ''h7h6'',
           ''g7g6'', ''f7f6'', ''d7d6'', ''c7c6'', ''b7b6'', ''a7a6'', ''e5e4'', ''h7h5'',
           ''g7g5'', ''f7f5'', ''d7d5'', ''c7c5'', ''b7b5'', ''a7a5'']
      | FoolsMate \<Rightarrow> []
      | Beyond \<Rightarrow> [])"

definition demo_push :: "demo_board \<Rightarrow> string \<Rightarrow> demo_board" where
  "demo_push b m =
     (if b = Start \<and> m = ''e2e4'' then AfterE4
      else if b = FoolsPre \<and> m = ''d8h4'' then FoolsMate
      else Beyond)"

definition demo_parse_san :: "demo_board \<Rightarrow> string \<Rightarrow> string + string" where
  "demo_parse_san b san =
     (if b = Start \<and> san = ''e4'' then Inr ''e2e4''
      else if b = Start \<and> san = ''Nf3'' then Inr ''g1f3''
      else if b = FoolsPre \<and> san = ''Qh4#'' then Inr ''d8h4''
      else Inl (''illegal san: '' @ [apostrophe] @ san @ [apostrophe] @ '' in '' @ demo_fen b))"

definition demo_engine :: "(demo_board, string) engine" where
  "demo_engine =
     \<lparr>board_fen = demo_fen,
      board_set_fen = demo_set_fen,
      board_reset = (\<lambda>_. Start),
      board_turn = demo_turn,
      move_from_uci = demo_from_uci,
      move_uci = (\<lambda>m. m),
      board_legal_moves = demo_legal_moves,
      board_push = demo_push,
      board_parse_san = demo_parse_san,
      board_is_check = (\<lambda>b. b = FoolsMate),
      board_is_checkmate = (\<lambda>b. b = FoolsMate),
      board_is_stalemate = (\<lambda>_. False),
      board_is_insufficient_material = (\<lambda>_. False),
      board_can_claim_threefold_repetition = (\<lambda>_. False),
      board_can_claim_fifty_moves = (\<lambda>_. False),
      board_is_game_over = (\<lambda>b. b = FoolsMate),
      board_result_claim_draw = (\<lambda>b. if b = FoolsMate then ''0-1'' else ''*'')\<rparr>"

section \<open>The agent bridge of \<^verbatim>\<open>src/utils/helpers.py\<close>\<close>

text \<open>
  The values that travel through the bridge are Python objects: the content of a model
  message is a string, or a list of strings and dicts. \<open>truthy\<close> is Python's truth value,
  which \<^verbatim>\<open>message or "Calling tool(s)"\<close> tests.
\<close>

datatype pyval = PNone | PStr string | PList "pyval list" | PDict "(string \<times> pyval) list"

fun truthy :: "pyval \<Rightarrow> bool" where
  "truthy PNone = False"
| "truthy (PStr s) = (s \<noteq> [])"
| "truthy (PList xs) = (xs \<noteq> [])"
| "truthy (PDict kvs) = (kvs \<noteq> [])"

text \<open>
  \<^verbatim>\<open>MESSAGE_TYPE = BaseMessage | gr.ChatMessage | dict[str, str]\<close>. A \<^verbatim>\<open>gr.ChatMessage\<close>
  has a role, a content and, for a tool record, a title in its metadata.
\<close>

datatype base_message = AIMessage pyval | HumanMessage pyval | OtherBaseMessage pyval

record chat_message =
  msg_role :: string
  msg_content :: pyval
  msg_title :: "string option"

datatype message = Base base_message | Chat chat_message | Dict "(string \<times> pyval) list"

definition is_ai_message :: "message \<Rightarrow> bool" where
  "is_ai_message message =
     (case message of
        Base (AIMessage _) \<Rightarrow> True
      | Base _ \<Rightarrow> False
      | Chat m \<Rightarrow> msg_role m = ''assistant''
      | Dict d \<Rightarrow> map_of d ''role'' = Some (PStr ''assistant''))"

text \<open>
  The last line of \<^verbatim>\<open>_convert_to_langchain_message\<close> raises for a value of another type;
  \<open>message\<close> has the three types of \<^verbatim>\<open>MESSAGE_TYPE\<close> only, so the conversion is total.
\<close>

definition convert_to_langchain_message :: "message \<Rightarrow> base_message" where
  "convert_to_langchain_message message =
     (case message of
        Base m \<Rightarrow> m
      | Chat m \<Rightarrow>
          if is_ai_message message then AIMessage (msg_content m) else HumanMessage (msg_content m)
      | Dict d \<Rightarrow>
          (let content = (case map_of d ''content'' of None \<Rightarrow> PStr [] | Some v \<Rightarrow> v)
           in if is_ai_message message then AIMessage content else HumanMessage content))"

text \<open>
  A chunk of the agent's stream is a dict that may have the key \<^verbatim>\<open>"tools"\<close>, with the
  list of tool messages (a name and a content each), and the key \<^verbatim>\<open>"agent"\<close>, with the
  list of model messages, of which only the \<^verbatim>\<open>content\<close> is read.
\<close>

record tool_step =
  step_name :: string
  step_content :: pyval

record chunk =
  chunk_tools :: "tool_step list option"
  chunk_agent :: "pyval list option"

text \<open>
  \<^verbatim>\<open>_get_chunk_message_content\<close>. \<^verbatim>\<open>chunk["agent"]\<close> raises \<^verbatim>\<open>KeyError\<close> without the key
  and \<^verbatim>\<open>messages[0]\<close> raises \<^verbatim>\<open>IndexError\<close> on an empty list; \<open>Inl\<close> is the text of the
  exception. The two \<^verbatim>\<open>if\<close> statements run one after the other.
\<close>

definition get_chunk_message_content :: "chunk \<Rightarrow> string + pyval" where
  "get_chunk_message_content chunk =
     (case chunk_agent chunk of
        None \<Rightarrow> Inl ([apostrophe] @ ''agent'' @ [apostrophe])
      | Some [] \<Rightarrow> Inl ''list index out of range''
      | Some (content # _) \<Rightarrow>
          (let message = content;
               message = (case message of
                            PList xs \<Rightarrow> (case xs of [] \<Rightarrow> PStr [] | x # _ \<Rightarrow> x)
                          | _ \<Rightarrow> message);
               message = (case message of
                            PDict d \<Rightarrow> (case map_of d ''text'' of None \<Rightarrow> PNone | Some v \<Rightarrow> v)
                          | _ \<Rightarrow> message)
           in Inr (if truthy message then message else PStr ''Calling tool(s)'')))"

text \<open>
  The reading of the final-answer extraction that the specification words give: a
  non-empty sequence gives its first element, a keyed answer its text field, and anything
  else the placeholder.
\<close>

definition spec_chunk_message_content :: "pyval \<Rightarrow> pyval" where
  "spec_chunk_message_content content =
     (case content of
        PList (x # _) \<Rightarrow> x
      | PDict d \<Rightarrow> (case map_of d ''text'' of None \<Rightarrow> PStr ''Calling tool(s)'' | Some v \<Rightarrow> v)
      | _ \<Rightarrow> PStr ''Calling tool(s)'')"

text \<open>
  The agent's \<^verbatim>\<open>astream\<close> is outside the repository. It is modelled by the finite list of
  what it delivers: a chunk, or an exception (an instance of \<^verbatim>\<open>Exception\<close>, given by its
  text) that ends the stream. The agent's tools change the board while the stream runs, and
  whoever consumes \<^verbatim>\<open>call_agent\<close> reads the board at every yield; so every event carries
  the state \<open>'x\<close> of the world at the moment it is delivered, and every yield the state at
  the moment it is made. The last component of the result of \<open>run_stream\<close> is the state of
  the world when the stream has ended.
\<close>

datatype 'x event = Chunk chunk 'x | Raise string 'x

definition tool_emoji :: string where
  "tool_emoji = [CHR 0xF0, CHR 0x9F, CHR 0x9B, CHR 0xA0, CHR 0xEF, CHR 0xB8, CHR 0x8F]"

definition tool_entry :: "tool_step \<Rightarrow> message" where
  "tool_entry step =
     Chat \<lparr>msg_role = ''assistant'', msg_content = step_content step,
           msg_title = Some (tool_emoji @ '' Used tool '' @ step_name step)\<rparr>"

definition assistant_entry :: "pyval \<Rightarrow> message" where
  "assistant_entry content =
     Chat \<lparr>msg_role = ''assistant'', msg_content = content, msg_title = None\<rparr>"

definition error_entry :: "string \<Rightarrow> message" where
  "error_entry e = assistant_entry (PStr (''Error: '' @ e))"

text \<open>The loop over \<^verbatim>\<open>chunk["tools"]["messages"]\<close>: one entry and one yield per step.\<close>

fun tool_steps :: "tool_step list \<Rightarrow> message list \<Rightarrow> message list list \<times> message list" where
  "tool_steps [] messages = ([], messages)"
| "tool_steps (step # steps) messages =
     (let messages' = messages @ [tool_entry step];
          (yields, final) = tool_steps steps messages'
      in (messages' # yields, final))"

text \<open>
  The body of the \<^verbatim>\<open>async for\<close> on one chunk: the yields it makes, the transcript it
  leaves, and the exception raised inside it, if any.
\<close>

definition process_chunk ::
  "chunk \<Rightarrow> message list \<Rightarrow> message list list \<times> message list \<times> string option" where
  "process_chunk chunk messages =
     (let (yields, messages) =
            (case chunk_tools chunk of
               None \<Rightarrow> ([], messages)
             | Some steps \<Rightarrow> tool_steps steps messages)
      in case chunk_agent chunk of
           None \<Rightarrow> (yields, messages, None)
         | Some _ \<Rightarrow>
             (case get_chunk_message_content chunk of
                Inl e \<Rightarrow> (yields, messages, Some e)
              | Inr content \<Rightarrow>
                  (let messages' = messages @ [assistant_entry content]
                   in (yields @ [messages'], messages', None))))"

text \<open>
  The \<^verbatim>\<open>try\<close> block of \<^verbatim>\<open>call_agent\<close> over the events of the stream, with its
  \<^verbatim>\<open>except Exception\<close> handler: the result is the list of yields, the transcript at the
  end and the state of the world at the end. Nothing is read from the stream after an
  exception. The whole body of \<^verbatim>\<open>call_agent\<close> after its first \<^verbatim>\<open>print\<close> is inside the
  \<^verbatim>\<open>try\<close>, so the function has no path on which an \<^verbatim>\<open>Exception\<close> leaves it.
\<close>

fun run_stream ::
  "'x event list \<Rightarrow> message list \<Rightarrow> 'x \<Rightarrow> (message list \<times> 'x) list \<times> message list \<times> 'x" where
  "run_stream [] messages x0 = ([], messages, x0)"
| "run_stream (Raise e x # _) messages x0 =
     (let messages' = messages @ [error_entry e] in ([(messages', x)], messages', x))"
| "run_stream (Chunk chunk x # rest) messages x0 =
     (case process_chunk chunk messages of
        (yields, messages', Some e) \<Rightarrow>
          (let messages'' = messages' @ [error_entry e]
           in (map (\<lambda>m. (m, x)) yields @ [(messages'', x)], messages'', x))
      | (yields, messages', None) \<Rightarrow>
          (let (more, final, x_end) = run_stream rest messages' x
           in (map (\<lambda>m. (m, x)) yields @ more, final, x_end)))"

text \<open>
  An agent, as \<^verbatim>\<open>call_agent\<close> uses it: from the messages passed to \<^verbatim>\<open>astream\<close> and the
  state of the world when it starts, the events it delivers.
\<close>

type_synonym 'x agent = "base_message list \<Rightarrow> 'x \<Rightarrow> 'x event list"

definition call_agent ::
  "'x agent \<Rightarrow> message list \<Rightarrow> base_message \<Rightarrow> 'x
     \<Rightarrow> (message list \<times> 'x) list \<times> message list \<times> 'x" where
  "call_agent agent messages prompt x =
     run_stream (agent (map convert_to_langchain_message (butlast messages) @ [prompt]) x)
       messages x"

text \<open>
  \<^verbatim>\<open>_create_model\<close> and \<^verbatim>\<open>create_agent\<close>. \<^verbatim>\<open>init_chat_model\<close> is given the qualified
  model name and one keyword argument; \<^verbatim>\<open>create_react_agent\<close> is outside the repository
  and is the parameter \<open>react\<close>. Binding \<^verbatim>\<open>think=False\<close> for Ollama is best effort and does
  not change which agent is built.
\<close>

datatype chat_model = ChatModel string string string

definition create_model :: "string \<Rightarrow> string \<Rightarrow> string \<Rightarrow> string + chat_model" where
  "create_model model_name provider api_key =
     (if provider = ''Anthropic'' then
        Inr (ChatModel (''anthropic:'' @ model_name) ''anthropic_api_key'' api_key)
      else if provider = ''Mistral'' then
        Inr (ChatModel (''mistralai:'' @ model_name) ''mistral_api_key'' api_key)
      else if provider = ''OpenAI'' then
        Inr (ChatModel (''openai:'' @ model_name) ''openai_api_key'' api_key)
      else if provider = ''Gemini'' then
        Inr (ChatModel (''google_genai:'' @ model_name) ''api_key'' api_key)
      else if provider = ''Ollama'' then
        Inr (ChatModel (''ollama:'' @ model_name) ''base_url'' ''http://localhost:11434'')
      else Inl (''Unsupported model provider: '' @ provider))"

type_synonym 'b react = "chat_model \<Rightarrow> 'b tool list \<Rightarrow> 'b agent"

definition create_agent ::
  "'b react \<Rightarrow> string \<Rightarrow> string \<Rightarrow> string \<Rightarrow> 'b tool list \<Rightarrow> string + 'b agent" where
  "create_agent react model_name provider api_key tools =
     (case create_model model_name provider api_key of
        Inl e \<Rightarrow> Inl e
      | Inr model \<Rightarrow> Inr (react model tools))"

section \<open>The orchestrator of \<^verbatim>\<open>src/app.py\<close>\<close>

text \<open>
  The entry points are generators over the shared board and the transcript. A run is
  modelled by the state it leaves: the board, the transcript, the list of pairs (transcript,
  FEN) it has yielded, and the text of the exception that ended it, if one did.
\<close>

record players =
  white_model_name :: string
  white_provider :: string
  white_api_key :: string
  black_model_name :: string
  black_provider :: string
  black_api_key :: string

record 'b game =
  g_board :: 'b
  g_messages :: "message list"
  g_emitted :: "(message list \<times> string) list"
  g_raised :: "string option"

definition nl :: string where
  "nl = [CHR 0x0A]"

definition autoplay_prompt :: "string \<Rightarrow> string \<Rightarrow> base_message" where
  "autoplay_prompt side fen =
     HumanMessage (PStr (
       nl @ nl @ ''<no_think>'' @ nl
       @ ''You are playing chess as '' @ side @ ''. It is strictly your turn. ''
       @ ''Board FEN: '' @ fen @ ''.'' @ nl
       @ ''Rules you MUST follow:'' @ nl
       @ ''- Only make a legal move for your side.'' @ nl
       @ ''- Output your move by CALLING the make_move tool with a UCI move in format ''
       @ [apostrophe] @ ''from_square+to_square'' @ [apostrophe] @ '' (4-5 characters).'' @ nl
       @ ''- UCI examples: e2e4 (pawn), g1f3 (knight), e1g1 (castling), e7e8q (pawn promotion to queen).'' @ nl
       @ ''- Do NOT use algebraic notation like Nf3, Bb4, O-O, Bxe3. Use UCI format only.'' @ nl
       @ ''- Do NOT attempt to move the opponent'' @ [apostrophe] @ ''s pieces.'' @ nl
       @ ''- You may use get_fen to verify the turn and position.'' @ nl
       @ ''- After making your move, CALL get_status and if the status indicates checkmate/stalemate/draw, announce the result clearly (e.g., ''
       @ [apostrophe] @ ''Checkmate, Black wins'' @ [apostrophe] @ '') and explain briefly.'' @ nl
       @ ''- Ignore any suggested moves that are illegal or belong to the opponent.'' @ nl))"

text \<open>
  \<^verbatim>\<open>async for messages in call_agent(agent, messages, prompt): yield messages, board.fen()\<close>,
  as both the chat turn and the autoplay loop run it.
\<close>

definition agent_turn ::
  "('b, 'm) engine \<Rightarrow> 'b agent \<Rightarrow> base_message \<Rightarrow> 'b game \<Rightarrow> 'b game" where
  "agent_turn E agent prompt g =
     (let (yields, messages, board) = call_agent agent (g_messages g) prompt (g_board g)
      in g\<lparr>g_board := board, g_messages := messages,
            g_emitted := g_emitted g @ map (\<lambda>(m, b). (m, board_fen E b)) yields\<rparr>)"

definition emit :: "('b, 'm) engine \<Rightarrow> 'b game \<Rightarrow> 'b game" where
  "emit E g = g\<lparr>g_emitted := g_emitted g @ [(g_messages g, board_fen E (g_board g))]\<rparr>"

text \<open>
  The \<^verbatim>\<open>while\<close> loop of \<^verbatim>\<open>_autoplay_until_human_or_gameover\<close>. \<open>max_moves\<close> is
  \<^verbatim>\<open>int | None\<close> and \<open>moves\<close> the counter. The loop need not end, so it is a partial
  function: \<open>None\<close> is a run that never returns. An exception of \<^verbatim>\<open>create_agent\<close> leaves
  the generator at once.
\<close>

partial_function (option) autoplay_loop ::
  "'b react \<Rightarrow> ('b, 'm) engine \<Rightarrow> players \<Rightarrow> int option \<Rightarrow> int \<Rightarrow> 'b game \<Rightarrow> 'b game option" where
  "autoplay_loop react E p max_moves moves g =
     (if board_is_game_over E (g_board g) then Some g
      else if (case max_moves of None \<Rightarrow> False | Some n \<Rightarrow> moves \<ge> n) then Some g
      else
        (let side = side_name (board_turn E (g_board g)) in
         if (side = ''white'' \<and> white_provider p = ''Human'')
            \<or> (side = ''black'' \<and> black_provider p = ''Human'')
         then Some g
         else
           (let real_prompt = autoplay_prompt side (board_fen E (g_board g));
                side_restricted_tools = create_base_tools E (Some side)
            in case (if side = ''white'' then
                       create_agent react (white_model_name p) (white_provider p)
                         (white_api_key p) side_restricted_tools
                     else
                       create_agent react (black_model_name p) (black_provider p)
                         (black_api_key p) side_restricted_tools) of
                 Inl e \<Rightarrow> Some (g\<lparr>g_raised := Some e\<rparr>)
               | Inr agent \<Rightarrow>
                   autoplay_loop react E p max_moves (moves + 1)
                     (agent_turn E agent real_prompt g))))"

declare autoplay_loop.simps [code]

text \<open>After the loop the generator yields the final state once more.\<close>

definition autoplay_until_human_or_gameover ::
  "'b react \<Rightarrow> ('b, 'm) engine \<Rightarrow> players \<Rightarrow> int option \<Rightarrow> 'b game \<Rightarrow> 'b game option" where
  "autoplay_until_human_or_gameover react E p max_moves g =
     (case autoplay_loop react E p max_moves 0 g of
        None \<Rightarrow> None
      | Some g' \<Rightarrow> Some (if g_raised g' = None then emit E g' else g'))"

text \<open>
  \<^verbatim>\<open>move_entrypoint\<close> sets the board from the FEN of the board widget (a \<^verbatim>\<open>ValueError\<close> of
  \<^verbatim>\<open>board.set_fen\<close> is not caught) and calls the autoplay without \<^verbatim>\<open>max_moves\<close>, whose
  default is \<^verbatim>\<open>None\<close>.
\<close>

definition move_entrypoint ::
  "'b react \<Rightarrow> ('b, 'm) engine \<Rightarrow> players \<Rightarrow> string \<Rightarrow> message list \<Rightarrow> 'b \<Rightarrow> 'b game option" where
  "move_entrypoint react E p fen messages board =
     (case board_set_fen E board fen of
        Inl e \<Rightarrow>
          Some \<lparr>g_board = board, g_messages = messages, g_emitted = [], g_raised = Some e\<rparr>
      | Inr board' \<Rightarrow>
          autoplay_until_human_or_gameover react E p None
            \<lparr>g_board = board', g_messages = messages, g_emitted = [], g_raised = None\<rparr>)"

text \<open>
  \<^verbatim>\<open>start_or_reset_game\<close>; the button passes no \<^verbatim>\<open>max_moves\<close>, whose default here is 200.
\<close>

definition start_or_reset_game ::
  "'b react \<Rightarrow> ('b, 'm) engine \<Rightarrow> players \<Rightarrow> int option \<Rightarrow> message list option \<Rightarrow> 'b
     \<Rightarrow> 'b game option" where
  "start_or_reset_game react E p max_moves messages board =
     (let board' = board_reset E board;
          messages' = (case messages of None \<Rightarrow> [] | Some ms \<Rightarrow> ms)
            @ [Chat \<lparr>msg_role = ''system'', msg_content = PStr ''New game started. White to move.'',
                     msg_title = None\<rparr>]
      in autoplay_until_human_or_gameover react E p max_moves
           \<lparr>g_board = board', g_messages = messages',
            g_emitted = [(messages', board_fen E board')], g_raised = None\<rparr>)"

definition start_button_click ::
  "'b react \<Rightarrow> ('b, 'm) engine \<Rightarrow> players \<Rightarrow> message list option \<Rightarrow> 'b \<Rightarrow> 'b game option" where
  "start_button_click react E p messages board =
     start_or_reset_game react E p (Some 200) messages board"

text \<open>
  \<^verbatim>\<open>base_tools = create_base_tools(board)\<close> of \<^verbatim>\<open>main\<close>: \<^verbatim>\<open>allowed_side\<close> takes its default
  \<^verbatim>\<open>None\<close>. The tools of the remote server are outside the repository and are a parameter.
\<close>

definition base_tools :: "('b, 'm) engine \<Rightarrow> 'b tool list" where
  "base_tools E = create_base_tools E None"

text \<open>\<^verbatim>\<open>chat_entrypoint\<close>: one turn of the side to move, with no loop.\<close>

definition chat_entrypoint ::
  "'b react \<Rightarrow> ('b, 'm) engine \<Rightarrow> 'b tool list \<Rightarrow> players \<Rightarrow> string \<Rightarrow> string \<Rightarrow> message list \<Rightarrow> 'b
     \<Rightarrow> 'b game" where
  "chat_entrypoint react E mcp_tools p fen prompt messages board =
     (case board_set_fen E board fen of
        Inl e \<Rightarrow> \<lparr>g_board = board, g_messages = messages, g_emitted = [], g_raised = Some e\<rparr>
      | Inr board' \<Rightarrow>
          (let messages' =
                 messages @ [Chat \<lparr>msg_role = ''user'', msg_content = PStr prompt, msg_title = None\<rparr>];
               g = \<lparr>g_board = board', g_messages = messages',
                    g_emitted = [(messages', board_fen E board')], g_raised = None\<rparr>;
               side = side_name (board_turn E board');
               real_prompt =
                 HumanMessage (PStr (prompt @ nl @ ''Current board state: '' @ board_fen E board'))
           in if side = ''white'' \<and> white_provider p \<noteq> ''Human'' then
                (case create_agent react (white_model_name p) (white_provider p) (white_api_key p)
                        (base_tools E @ mcp_tools) of
                   Inl e \<Rightarrow> g\<lparr>g_raised := Some e\<rparr>
                 | Inr agent \<Rightarrow> agent_turn E agent real_prompt g)
              else if side = ''black'' \<and> black_provider p \<noteq> ''Human'' then
                (case create_agent react (black_model_name p) (black_provider p) (black_api_key p)
                        (base_tools E @ mcp_tools) of
                   Inl e \<Rightarrow> g\<lparr>g_raised := Some e\<rparr>
                 | Inr agent \<Rightarrow> agent_turn E agent real_prompt g)
              else
                emit E (g\<lparr>g_messages := messages'
                  @ [assistant_entry (PStr ''No AI configured for the side to move.'')]\<rparr>)))"

section \<open>Agents for running the orchestrator\<close>

text \<open>
  Two agents to run the entry points on: one whose stream raises at once, as when the
  model server cannot be reached, and one that calls the \<^verbatim>\<open>make_move\<close> tool it was given
  once, with a fixed move, and then answers. The players are a human with the white pieces
  and an Ollama model with the black ones, or an Ollama model on both sides.
\<close>

definition failing_react :: "'b react" where
  "failing_react model tools = (\<lambda>input board. [Raise ''connection refused'' board])"

definition find_tool :: "string \<Rightarrow> 'b tool list \<Rightarrow> 'b tool option" where
  "find_tool name tools = List.find (\<lambda>t. tool_name t = name) tools"

definition scripted_react :: "string \<Rightarrow> 'b react" where
  "scripted_react move model tools =
     (\<lambda>input board.
        case find_tool ''make_move'' tools of
          None \<Rightarrow> [Raise ''no make_move tool'' board]
        | Some t \<Rightarrow>
            (let (answer, board') = tool_call t move board
             in [Chunk \<lparr>chunk_tools = Some [\<lparr>step_name = ''make_move'', step_content = PStr answer\<rparr>],
                        chunk_agent = None\<rparr> board',
                 Chunk \<lparr>chunk_tools = None, chunk_agent = Some [PStr ''Done.'']\<rparr> board']))"

definition demo_players :: players where
  "demo_players =
     \<lparr>white_model_name = [], white_provider = ''Human'', white_api_key = [],
      black_model_name = ''qwen3'', black_provider = ''Ollama'', black_api_key = []\<rparr>"

definition ai_players :: players where
  "ai_players =
     \<lparr>white_model_name = ''qwen3'', white_provider = ''Ollama'', white_api_key = [],
      black_model_name = ''qwen3'', black_provider = ''Ollama'', black_api_key = []\<rparr>"

section \<open>Properties of the tools\<close>



text \<open>A malformed move takes the exception handler of \<^verbatim>\<open>make_move\<close>.\<close>

lemma make_move_malformed_example:
  "make_move demo_engine None ''Nf3'' Start = (InvalidUciFormat ''Nf3'', Start)"
  by (simp add: make_move_def demo_engine_def demo_turn_def side_name_def demo_from_uci_def
      lower_def lower_char_def sublist_code)

text \<open>
  C3. A tool surface built with a side restriction: whenever the side to move is not the
  restricted side, \<^verbatim>\<open>make_move\<close> answers "Not your turn" and leaves the position as it
  was, whatever the move argument is (the move is not parsed at all).
\<close>

theorem make_move_not_your_turn:
  assumes "allowed_side = Some s" and "s \<noteq> side_name (board_turn E board)"
  shows "make_move E allowed_side move board = (NotYourTurn (side_name (board_turn E board)), board)
         \<and> make_move_tool E allowed_side move board
           = (''Not your turn: it'' @ [apostrophe] @ ''s '' @ side_name (board_turn E board)
                @ '' to move. Wait for opponent.'', board)"
  using assms by (auto simp: make_move_def make_move_tool_def render_reply_def Let_def)

theorem make_move_not_your_turn_witness:
  "make_move demo_engine (Some ''black'') ''anything'' Start = (NotYourTurn ''white'', Start)
   \<and> make_move demo_engine (Some ''black'') ''e2e4'' Start = (NotYourTurn ''white'', Start)"
  using make_move_not_your_turn [of "Some ''black''" "''black''" demo_engine Start "''anything''"]
    make_move_not_your_turn [of "Some ''black''" "''black''" demo_engine Start "''e2e4''"]
  by (simp add: demo_engine_def demo_turn_def side_name_def)

text \<open>
  C1. A move string that parses as a UCI move and is in the legal-move list of the position
  is applied when no side restriction is set or the restricted side is the side to move:
  the position becomes the one after the push, and the answer is the FEN of that position
  followed by the status tag (the \<open>MoveApplied\<close> return, none of the error returns).
\<close>

theorem make_move_legal:
  assumes "move_from_uci E move = Inr chess_move"
    and "chess_move \<in> set (board_legal_moves E board)"
    and "allowed_side = None \<or> allowed_side = Some (side_name (board_turn E board))"
  shows "make_move E allowed_side move board
           = (MoveApplied (board_fen E (board_push E board chess_move))
                (move_status E (board_push E board chess_move)),
              board_push E board chess_move)
         \<and> make_move_tool E allowed_side move board
           = (board_fen E (board_push E board chess_move) @ '' | status=''
                @ move_status E (board_push E board chess_move),
              board_push E board chess_move)"
  using assms by (auto simp: make_move_def make_move_tool_def render_reply_def Let_def)

theorem make_move_legal_witness:
  "make_move_tool demo_engine (Some ''white'') ''e2e4'' Start
     = (''rnbqkbnr/pppppppp/8/8/4P3/8/PPPP1PPP/RNBQKBNR b KQkq - 0 1 | status=ongoing'', AfterE4)"
  using make_move_legal [of demo_engine "''e2e4''" "''e2e4''" Start "Some ''white''"]
  by (simp add: demo_engine_def demo_turn_def side_name_def demo_from_uci_def demo_square_def
      demo_legal_moves_def demo_push_def demo_fen_def move_status_def)








text \<open>
  C9. \<^verbatim>\<open>convert_move_to_uci\<close> leaves the position as it was for every input: it asks the
  engine to parse the move in the position and answers with the UCI text of the move, or
  with a message that carries the parser's error.
\<close>

theorem convert_move_to_uci_frame:
  "snd (convert_move_to_uci E algebraic_move board) = board
   \<and> fst (convert_move_to_uci E algebraic_move board)
       = (case board_parse_san E board algebraic_move of
            Inr move \<Rightarrow> ''UCI format: '' @ move_uci E move
          | Inl e \<Rightarrow>
              ''Could not convert '' @ [apostrophe] @ algebraic_move @ [apostrophe]
                @ '' to UCI format. Error: '' @ e)"
  by (cases "board_parse_san E board algebraic_move") (simp_all add: convert_move_to_uci_def)

theorem convert_move_to_uci_frame_witness:
  "convert_move_to_uci demo_engine ''Nf3'' Start = (''UCI format: g1f3'', Start)
   \<and> snd (convert_move_to_uci demo_engine ''castle'' Start) = Start"
  using convert_move_to_uci_frame [of demo_engine "''Nf3''" Start]
    convert_move_to_uci_frame [of demo_engine "''castle''" Start]
  by (simp add: demo_engine_def demo_parse_san_def prod_eq_iff)

section \<open>Properties of the bridge\<close>

text \<open>
  C8, as stated, fails on plain text: for a final answer whose content is the string
  \<open>I played e2e4.\<close> the words of the claim give the placeholder, and the code returns the
  string itself.
\<close>

theorem chunk_message_content_counterexample:
  "get_chunk_message_content \<lparr>chunk_tools = None, chunk_agent = Some [PStr ''I played e2e4.'']\<rparr>
     = Inr (PStr ''I played e2e4.'')
   \<and> spec_chunk_message_content (PStr ''I played e2e4.'') = PStr ''Calling tool(s)''
   \<and> PStr ''I played e2e4.'' \<noteq> PStr ''Calling tool(s)''"
  by (simp add: get_chunk_message_content_def spec_chunk_message_content_def)

text \<open>
  C8, amended. The content of the first message of a final-answer event is reduced in two
  steps, one after the other: a sequence is replaced by its first element (an empty one by
  the empty string), then a keyed answer by the value of its \<open>text\<close> field (by \<open>None\<close>
  without the field). The value reached is the result when it is truthy, and the
  placeholder \<open>Calling tool(s)\<close> otherwise. So a non-empty string is returned as it is, a
  sequence that starts with a non-empty string gives that string, a keyed answer (alone
  or first in a sequence) gives its non-empty text, and \<open>None\<close>, the empty string, the
  empty sequence and a keyed answer without a truthy text give the placeholder.
\<close>

theorem chunk_message_content_cases:
  assumes first: "chunk_agent chunk = Some (content # rest)"
  shows "(content = PStr s \<and> s \<noteq> [] \<longrightarrow> get_chunk_message_content chunk = Inr (PStr s))
       \<and> (content = PList (PStr s # xs) \<and> s \<noteq> [] \<longrightarrow>
            get_chunk_message_content chunk = Inr (PStr s))
       \<and> (content = PList (PList (y # ys) # xs) \<longrightarrow>
            get_chunk_message_content chunk = Inr (PList (y # ys)))
       \<and> ((content = PDict d \<or> content = PList (PDict d # xs))
            \<and> map_of d ''text'' = Some v \<and> truthy v \<longrightarrow>
            get_chunk_message_content chunk = Inr v)
       \<and> ((content = PDict d \<or> content = PList (PDict d # xs))
            \<and> (map_of d ''text'' = None \<or> (map_of d ''text'' = Some v \<and> \<not> truthy v)) \<longrightarrow>
            get_chunk_message_content chunk = Inr (PStr ''Calling tool(s)''))
       \<and> (content = PNone \<or> content = PStr [] \<or> content = PList []
            \<or> content = PList (PNone # xs) \<or> content = PList (PStr [] # xs)
            \<or> content = PList (PList [] # xs) \<longrightarrow>
            get_chunk_message_content chunk = Inr (PStr ''Calling tool(s)''))"
proof -
  have plain: "get_chunk_message_content chunk = Inr (PStr s)"
    if "content = PStr s \<or> content = PList (PStr s # xs)" and "s \<noteq> []"
    using that first by (auto simp: get_chunk_message_content_def)
  have nested: "get_chunk_message_content chunk = Inr (PList (y # ys))"
    if "content = PList (PList (y # ys) # xs)"
    using that first by (simp add: get_chunk_message_content_def)
  have keyed: "get_chunk_message_content chunk =
      Inr (case map_of d ''text'' of
             None \<Rightarrow> PStr ''Calling tool(s)''
           | Some v \<Rightarrow> if truthy v then v else PStr ''Calling tool(s)'')"
    if "content = PDict d \<or> content = PList (PDict d # xs)"
    using that first by (auto simp: get_chunk_message_content_def split: option.splits)
  have empty: "get_chunk_message_content chunk = Inr (PStr ''Calling tool(s)'')"
    if "content = PNone \<or> content = PStr [] \<or> content = PList []
        \<or> content = PList (PNone # xs) \<or> content = PList (PStr [] # xs)
        \<or> content = PList (PList [] # xs)"
    using that first by (auto simp: get_chunk_message_content_def)
  show ?thesis
    using plain nested keyed empty by (auto split: option.splits)
qed

theorem chunk_message_content_cases_witness:
  "get_chunk_message_content
     \<lparr>chunk_tools = None,
      chunk_agent = Some [PList [PDict [(''type'', PStr ''text''), (''text'', PStr ''Knight to f3.'')],
                                 PStr ''more'']]\<rparr>
     = Inr (PStr ''Knight to f3.'')
   \<and> get_chunk_message_content \<lparr>chunk_tools = None, chunk_agent = Some [PStr []]\<rparr>
     = Inr (PStr ''Calling tool(s)'')"
  using chunk_message_content_cases
    [of "\<lparr>chunk_tools = None,
          chunk_agent = Some [PList [PDict [(''type'', PStr ''text''), (''text'', PStr ''Knight to f3.'')],
                                     PStr ''more'']]\<rparr>"
      "PList [PDict [(''type'', PStr ''text''), (''text'', PStr ''Knight to f3.'')], PStr ''more'']"
      "[]" "[]" "[PStr ''more'']" PNone "[]"
      "[(''type'', PStr ''text''), (''text'', PStr ''Knight to f3.'')]" "PStr ''Knight to f3.''"]
    chunk_message_content_cases
    [of "\<lparr>chunk_tools = None, chunk_agent = Some [PStr []]\<rparr>" "PStr []" "[]"]
  by simp





section \<open>Properties of the orchestrator\<close>

text \<open>
  C10. On a chat turn the agent is built over \<^verbatim>\<open>base_tools + mcp_tools\<close>, where
  \<^verbatim>\<open>base_tools\<close> was created without a side restriction: the chat turn depends on
  \<^verbatim>\<open>create_react_agent\<close> only through what it builds from that list of tools; the
  \<^verbatim>\<open>make_move\<close> among the base tools is the unrestricted one; it never takes the "Not your
  turn" return, and it applies every legal move, whichever side is to move.
\<close>

theorem chat_turn_tools_unrestricted:
  "(\<forall>t \<in> set (base_tools E). tool_name t = ''make_move'' \<longrightarrow> tool_call t = make_move_tool E None)
   \<and> ((\<forall>model. react model (base_tools E @ mcp_tools) = react' model (base_tools E @ mcp_tools)) \<longrightarrow>
        chat_entrypoint react E mcp_tools p fen prompt messages board
          = chat_entrypoint react' E mcp_tools p fen prompt messages board)
   \<and> fst (make_move E None move b) \<noteq> NotYourTurn current
   \<and> (move_from_uci E move = Inr chess_move \<and> chess_move \<in> set (board_legal_moves E b) \<longrightarrow>
        make_move E None move b
          = (MoveApplied (board_fen E (board_push E b chess_move))
               (move_status E (board_push E b chess_move)),
             board_push E b chess_move))"
proof (intro conjI)
  show "\<forall>t \<in> set (base_tools E). tool_name t = ''make_move'' \<longrightarrow> tool_call t = make_move_tool E None"
    by (simp add: base_tools_def create_base_tools_def)
next
  show "(\<forall>model. react model (base_tools E @ mcp_tools) = react' model (base_tools E @ mcp_tools)) \<longrightarrow>
      chat_entrypoint react E mcp_tools p fen prompt messages board
        = chat_entrypoint react' E mcp_tools p fen prompt messages board"
  proof
    assume same: "\<forall>model. react model (base_tools E @ mcp_tools) = react' model (base_tools E @ mcp_tools)"
    have built: "create_agent react m pr k (base_tools E @ mcp_tools)
        = create_agent react' m pr k (base_tools E @ mcp_tools)" for m pr k
      using same by (simp add: create_agent_def split: sum.splits)
    show "chat_entrypoint react E mcp_tools p fen prompt messages board
        = chat_entrypoint react' E mcp_tools p fen prompt messages board"
      unfolding chat_entrypoint_def built by (rule refl)
  qed
next
  show "fst (make_move E None move b) \<noteq> NotYourTurn current"
    by (simp add: make_move_def Let_def split: sum.splits)
next
  show "move_from_uci E move = Inr chess_move \<and> chess_move \<in> set (board_legal_moves E b) \<longrightarrow>
      make_move E None move b
        = (MoveApplied (board_fen E (board_push E b chess_move))
             (move_status E (board_push E b chess_move)),
           board_push E b chess_move)"
    by (simp add: make_move_def Let_def)
qed

theorem chat_turn_tools_unrestricted_witness:
  "g_board (chat_entrypoint (scripted_react ''d8h4'') demo_engine [] demo_players
      (demo_fen FoolsPre) ''Your move.'' [] Start) = FoolsMate
   \<and> snd (make_move demo_engine None ''e2e4'' Start) = AfterE4
   \<and> snd (make_move demo_engine None ''d8h4'' FoolsPre) = FoolsMate"
  using chat_turn_tools_unrestricted
    [of demo_engine "scripted_react ''d8h4''" "[]" "scripted_react ''d8h4''" demo_players
      "demo_fen FoolsPre" "''Your move.''" "[]" Start "''d8h4''" FoolsPre "''white''" "''d8h4''"]
    chat_turn_tools_unrestricted
    [of demo_engine "scripted_react ''d8h4''" "[]" "scripted_react ''d8h4''" demo_players
      "demo_fen FoolsPre" "''Your move.''" "[]" Start "''e2e4''" Start "''white''" "''e2e4''"]
  by (simp add: chat_entrypoint_def demo_engine_def demo_set_fen_def demo_fen_def demo_turn_def
      side_name_def demo_players_def create_agent_def create_model_def base_tools_def
      create_base_tools_def scripted_react_def find_tool_def make_move_tool_def make_move_def
      agent_turn_def call_agent_def process_chunk_def get_chunk_message_content_def
      demo_from_uci_def demo_square_def demo_legal_moves_def demo_push_def Let_def)

text \<open>
  With a move ceiling the autoplay loop returns, whatever the agents do in their turns:
  the distance of the counter to the ceiling shrinks with every turn.
\<close>

lemma autoplay_loop_returns_under_ceiling:
  "\<exists>g'. autoplay_loop react E p (Some n) moves g = Some g'"
proof (induction "nat (n - moves)" arbitrary: moves g)
  case 0
  then have "n \<le> moves"
    by simp
  then show ?case
    by (subst autoplay_loop.simps) simp
next
  case (Suc k)
  then have "k = nat (n - (moves + 1))"
    by simp
  from Suc(1) [OF this]
  have next_turn: "\<exists>g'. autoplay_loop react E p (Some n) (moves + 1) g = Some g'" for g
    by simp
  show ?case
    by (subst autoplay_loop.simps) (use next_turn in \<open>auto simp: Let_def split: sum.splits\<close>)
qed

lemma start_button_click_returns:
  "\<exists>g'. start_button_click react E p messages board = Some g'"
proof -
  obtain g' where "autoplay_loop react E p (Some 200) 0
      \<lparr>g_board = board_reset E board,
       g_messages = (case messages of None \<Rightarrow> [] | Some ms \<Rightarrow> ms)
         @ [Chat \<lparr>msg_role = ''system'', msg_content = PStr ''New game started. White to move.'',
                  msg_title = None\<rparr>],
       g_emitted = [((case messages of None \<Rightarrow> [] | Some ms \<Rightarrow> ms)
         @ [Chat \<lparr>msg_role = ''system'', msg_content = PStr ''New game started. White to move.'',
                  msg_title = None\<rparr>], board_fen E (board_reset E board))],
       g_raised = None\<rparr> = Some g'"
    using autoplay_loop_returns_under_ceiling by blast
  then show ?thesis
    by (simp add: start_button_click_def start_or_reset_game_def
        autoplay_until_human_or_gameover_def Let_def)
qed

text \<open>
  Two runs that return. With both sides played by models and a ceiling of one, a reset
  plays one ply. With a human as white, the move-triggered autoplay from the position
  before Fool's mate plays black's mating move and stops, the game being over.
\<close>

lemma start_or_reset_game_ceiling_example:
  "map_option g_board
     (start_or_reset_game (scripted_react ''e2e4'') demo_engine ai_players (Some 1) None FoolsMate)
   = Some AfterE4"
  by code_simp

lemma move_entrypoint_returns_example:
  "map_option g_board
     (move_entrypoint (scripted_react ''d8h4'') demo_engine demo_players (demo_fen FoolsPre) [] Start)
   = Some FoolsMate"
  by code_simp

text \<open>
  An agent whose stream raises at once leaves the board as it was, so the side to move
  stays the same; without a ceiling nothing ends the loop.
\<close>

lemma failing_turn_board:
  "g_board (agent_turn E (failing_react model tools) prompt g) = g_board g"
  by (simp add: agent_turn_def call_agent_def failing_react_def Let_def)

lemma autoplay_loop_never_returns:
  assumes "autoplay_loop react E p max_moves moves g = Some g'"
    and "react = failing_react" and "E = demo_engine" and "p = demo_players"
    and "max_moves = None" and "g_board g = AfterE4"
  shows False
  using assms
proof (induction rule: autoplay_loop.raw_induct [rotated 1, consumes 1])
  case (1 loop react E p max_moves moves g g')
  have board: "g_board (agent_turn demo_engine (failing_react m t) prompt g) = AfterE4"
    for m t prompt
    using 1 by (simp add: failing_turn_board)
  from 1(2) have "loop failing_react demo_engine demo_players None (moves + 1)
      (agent_turn demo_engine
         (failing_react (ChatModel ''ollama:qwen3'' ''base_url'' ''http://localhost:11434'')
            (create_base_tools demo_engine (Some ''black'')))
         (autoplay_prompt ''black'' (demo_fen AfterE4)) g) = Some g'"
    unfolding 1(3-7)
    by (simp add: demo_engine_def demo_turn_def side_name_def demo_players_def create_agent_def
        create_model_def Let_def)
  then show ?case
    using 1(1) board by blast
qed

text \<open>
  C5 at the failing input. White is a human, black an Ollama model whose server does not
  answer. The human plays \<open>e2e4\<close> on the board, and \<^verbatim>\<open>move_entrypoint\<close> runs with the FEN
  of the position after the move: every turn of black ends with an error entry and no move,
  and, \<^verbatim>\<open>max_moves\<close> being \<^verbatim>\<open>None\<close> on this path, the run never returns.
\<close>

theorem move_entrypoint_never_returns:
  "move_entrypoint failing_react demo_engine demo_players (demo_fen AfterE4) [] Start = None"
proof -
  let ?g = "\<lparr>g_board = AfterE4, g_messages = [], g_emitted = [], g_raised = None\<rparr>"
  have "autoplay_loop failing_react demo_engine demo_players None 0 ?g = None"
    using autoplay_loop_never_returns [of failing_react demo_engine demo_players None 0 ?g]
    by (cases "autoplay_loop failing_react demo_engine demo_players None 0 ?g") auto
  then show ?thesis
    by (simp add: move_entrypoint_def autoplay_until_human_or_gameover_def demo_engine_def
        demo_set_fen_def demo_fen_def)
qed

end
